theory Spec2Isabelle
  imports Main "HOL-Library.Word"
begin

unbundle bit_operations_syntax

section \<open>The sandbox launcher of \<^verbatim>\<open>src/html-renderer/render.c\<close>\<close>

text \<open>
  The program is one function, \<^verbatim>\<open>main\<close>: a straight line of eight library calls,
  each followed by a test of its result; a failed call is reported with
  \<^verbatim>\<open>perror\<close> and ends the program with \<^verbatim>\<open>return 1\<close>.

  The embedding passes the process state explicitly. The library calls are not part
  of the repository, so the operating system is a parameter: a record of answers
  (\<open>os\<close>) that says, for every call and argument, whether the call succeeds and which
  \<^verbatim>\<open>errno\<close> it leaves when it fails. Every theorem holds for every such record.
  What a successful call does to the process (credentials, working directory,
  namespaces) is written down once per call, at the level of the call's contract.
\<close>

subsection \<open>Types of the C interface\<close>

type_synonym uid_t = "32 word"
type_synonym gid_t = "32 word"
type_synonym errno_t = int

text \<open>A \<^verbatim>\<open>char **\<close>: the address of a NULL-terminated vector of strings.\<close>

type_synonym addr = nat

text \<open>\<^verbatim>\<open>struct passwd\<close> and \<^verbatim>\<open>struct group\<close>, with their name and ID fields.\<close>

record passwd =
  pw_name :: string
  pw_uid :: uid_t
  pw_gid :: gid_t

record group =
  gr_name :: string
  gr_gid :: gid_t

subsection \<open>The flags of \<^verbatim>\<open>unshare\<close>\<close>

text \<open>
  The \<^verbatim>\<open>CLONE_*\<close> macros come from \<^verbatim>\<open><sched.h>\<close> (Linux), which the program includes;
  every one is a single bit of the \<^verbatim>\<open>int\<close> argument.
\<close>

definition CLONE_NEWTIME :: "32 word" where "CLONE_NEWTIME = 0x00000080"
definition CLONE_FS :: "32 word" where "CLONE_FS = 0x00000200"
definition CLONE_FILES :: "32 word" where "CLONE_FILES = 0x00000400"
definition CLONE_NEWNS :: "32 word" where "CLONE_NEWNS = 0x00020000"
definition CLONE_SYSVSEM :: "32 word" where "CLONE_SYSVSEM = 0x00040000"
definition CLONE_NEWCGROUP :: "32 word" where "CLONE_NEWCGROUP = 0x02000000"
definition CLONE_NEWUTS :: "32 word" where "CLONE_NEWUTS = 0x04000000"
definition CLONE_NEWIPC :: "32 word" where "CLONE_NEWIPC = 0x08000000"
definition CLONE_NEWUSER :: "32 word" where "CLONE_NEWUSER = 0x10000000"
definition CLONE_NEWPID :: "32 word" where "CLONE_NEWPID = 0x20000000"
definition CLONE_NEWNET :: "32 word" where "CLONE_NEWNET = 0x40000000"

text \<open>Every flag that \<^verbatim>\<open>unshare(2)\<close> accepts, in ascending order of its bit.\<close>

definition all_unshare_flags :: "32 word list" where
  "all_unshare_flags =
     [CLONE_NEWTIME, CLONE_FS, CLONE_FILES, CLONE_NEWNS, CLONE_SYSVSEM, CLONE_NEWCGROUP,
      CLONE_NEWUTS, CLONE_NEWIPC, CLONE_NEWUSER, CLONE_NEWPID, CLONE_NEWNET]"

text \<open>The argument of the call at lines 53 to 61, flag for flag in the source's order.\<close>

definition unshare_flags :: "32 word" where
  "unshare_flags =
     CLONE_FILES
     OR CLONE_FS
     OR CLONE_NEWIPC
     OR CLONE_NEWNET
     OR CLONE_NEWNS
     OR CLONE_NEWPID
     OR CLONE_NEWUTS
     OR CLONE_SYSVSEM"

subsection \<open>Calls, answers and the process\<close>

text \<open>
  One constructor per library call of the program, with the arguments of the call.
  \<open>Execv\<close> carries the pointer it was given and the vector found behind it.
\<close>

datatype call =
    Getpwnam string
  | Getgrnam string
  | Initgroups string gid_t
  | Chdir string
  | Unshare "32 word"
  | Setresgid gid_t gid_t gid_t
  | Setresuid uid_t uid_t uid_t
  | Execv string addr "string list"

datatype status = Succeeded | Failed errno_t

type_synonym event = "call \<times> status"

text \<open>
  The operating system's answers. A lookup answers with the record or with the
  \<^verbatim>\<open>errno\<close> that is in place after a NULL result (a lookup that finds no entry need not
  set \<^verbatim>\<open>errno\<close>: the value is then whatever the call left there); the other calls answer
  with \<open>Succeeded\<close> or \<open>Failed errno\<close>. \<open>os_strerror\<close> is the message table of \<^verbatim>\<open>perror\<close>.
\<close>

record os =
  os_getpwnam :: "string \<Rightarrow> errno_t + passwd"
  os_getgrnam :: "string \<Rightarrow> errno_t + group"
  os_initgroups :: "string \<Rightarrow> gid_t \<Rightarrow> status"
  os_chdir :: "string \<Rightarrow> status"
  os_unshare :: "32 word \<Rightarrow> status"
  os_setresgid :: "gid_t \<Rightarrow> gid_t \<Rightarrow> gid_t \<Rightarrow> status"
  os_setresuid :: "uid_t \<Rightarrow> uid_t \<Rightarrow> uid_t \<Rightarrow> status"
  os_execv :: "string \<Rightarrow> string list \<Rightarrow> status"
  os_strerror :: "errno_t \<Rightarrow> string"

text \<open>
  The process: its two credential triples, the supplementary groups as last
  initialised, the working directory, the flags unshared so far, \<^verbatim>\<open>errno\<close>, the bytes
  written to the standard error stream, the calls made so far with their results (what
  a harness intercepting the calls observes), and the argument vectors in memory.
\<close>

record proc =
  ruid :: uid_t
  euid :: uid_t
  suid :: uid_t
  rgid :: gid_t
  egid :: gid_t
  sgid :: gid_t
  supplementary :: "(string \<times> gid_t) option"
  cwd :: string
  unshared :: "32 word"
  errno :: errno_t
  err_stream :: string
  calls :: "event list"
  mem :: "addr \<Rightarrow> string list"

definition record_call :: "call \<Rightarrow> status \<Rightarrow> proc \<Rightarrow> proc" where
  "record_call c r s = s\<lparr>calls := calls s @ [(c, r)]\<rparr>"

subsection \<open>The library calls\<close>

text \<open>
  A lookup returns a pointer to the record, or NULL (\<open>None\<close>). The other calls return
  \<^verbatim>\<open>0\<close>, or \<^verbatim>\<open>-1\<close> with \<^verbatim>\<open>errno\<close> set; a failed call changes nothing else.
\<close>

definition getpwnam :: "os \<Rightarrow> string \<Rightarrow> proc \<Rightarrow> passwd option \<times> proc" where
  "getpwnam E name s =
     (case os_getpwnam E name of
        Inr pw \<Rightarrow> (Some pw, record_call (Getpwnam name) Succeeded s)
      | Inl e \<Rightarrow> (None, record_call (Getpwnam name) (Failed e) (s\<lparr>errno := e\<rparr>)))"

definition getgrnam :: "os \<Rightarrow> string \<Rightarrow> proc \<Rightarrow> group option \<times> proc" where
  "getgrnam E name s =
     (case os_getgrnam E name of
        Inr gr \<Rightarrow> (Some gr, record_call (Getgrnam name) Succeeded s)
      | Inl e \<Rightarrow> (None, record_call (Getgrnam name) (Failed e) (s\<lparr>errno := e\<rparr>)))"

definition initgroups :: "os \<Rightarrow> string \<Rightarrow> gid_t \<Rightarrow> proc \<Rightarrow> int \<times> proc" where
  "initgroups E name g s =
     (case os_initgroups E name g of
        Succeeded \<Rightarrow>
          (0, record_call (Initgroups name g) Succeeded (s\<lparr>supplementary := Some (name, g)\<rparr>))
      | Failed e \<Rightarrow> (- 1, record_call (Initgroups name g) (Failed e) (s\<lparr>errno := e\<rparr>)))"

definition chdir :: "os \<Rightarrow> string \<Rightarrow> proc \<Rightarrow> int \<times> proc" where
  "chdir E path s =
     (case os_chdir E path of
        Succeeded \<Rightarrow> (0, record_call (Chdir path) Succeeded (s\<lparr>cwd := path\<rparr>))
      | Failed e \<Rightarrow> (- 1, record_call (Chdir path) (Failed e) (s\<lparr>errno := e\<rparr>)))"

definition unshare :: "os \<Rightarrow> 32 word \<Rightarrow> proc \<Rightarrow> int \<times> proc" where
  "unshare E flags s =
     (case os_unshare E flags of
        Succeeded \<Rightarrow>
          (0, record_call (Unshare flags) Succeeded (s\<lparr>unshared := unshared s OR flags\<rparr>))
      | Failed e \<Rightarrow> (- 1, record_call (Unshare flags) (Failed e) (s\<lparr>errno := e\<rparr>)))"

text \<open>
  \<^verbatim>\<open>setresgid\<close> and \<^verbatim>\<open>setresuid\<close> set the real, the effective and the saved ID in one
  call: on success the triple is the three arguments, on failure it is untouched.
  The arguments are read as IDs. The real calls also accept the value \<^verbatim>\<open>-1\<close> in a slot,
  meaning that this ID is to be left as it is; \<^verbatim>\<open>-1\<close> is not the ID of any user or group,
  and that reading of an argument is not part of the model.
\<close>

definition setresgid :: "os \<Rightarrow> gid_t \<Rightarrow> gid_t \<Rightarrow> gid_t \<Rightarrow> proc \<Rightarrow> int \<times> proc" where
  "setresgid E r e sv s =
     (case os_setresgid E r e sv of
        Succeeded \<Rightarrow>
          (0, record_call (Setresgid r e sv) Succeeded (s\<lparr>rgid := r, egid := e, sgid := sv\<rparr>))
      | Failed en \<Rightarrow> (- 1, record_call (Setresgid r e sv) (Failed en) (s\<lparr>errno := en\<rparr>)))"

definition setresuid :: "os \<Rightarrow> uid_t \<Rightarrow> uid_t \<Rightarrow> uid_t \<Rightarrow> proc \<Rightarrow> int \<times> proc" where
  "setresuid E r e sv s =
     (case os_setresuid E r e sv of
        Succeeded \<Rightarrow>
          (0, record_call (Setresuid r e sv) Succeeded (s\<lparr>ruid := r, euid := e, suid := sv\<rparr>))
      | Failed en \<Rightarrow> (- 1, record_call (Setresuid r e sv) (Failed en) (s\<lparr>errno := en\<rparr>)))"

text \<open>
  \<^verbatim>\<open>execv\<close> returns only when it fails. On success the process image is replaced: the
  new image is the file at the path, started on the vector behind the pointer.
\<close>

datatype exec_result = Image string "string list" | Returned int

definition execv :: "os \<Rightarrow> string \<Rightarrow> addr \<Rightarrow> proc \<Rightarrow> exec_result \<times> proc" where
  "execv E path argv s =
     (case os_execv E path (mem s argv) of
        Succeeded \<Rightarrow>
          (Image path (mem s argv), record_call (Execv path argv (mem s argv)) Succeeded s)
      | Failed e \<Rightarrow>
          (Returned (- 1),
           record_call (Execv path argv (mem s argv)) (Failed e) (s\<lparr>errno := e\<rparr>)))"

text \<open>\<^verbatim>\<open>perror(msg)\<close> writes \<^verbatim>\<open>msg\<close>, a colon, a blank, the text of \<^verbatim>\<open>errno\<close> and a newline.\<close>

definition perror_line :: "os \<Rightarrow> string \<Rightarrow> errno_t \<Rightarrow> string" where
  "perror_line E msg e = msg @ '': '' @ os_strerror E e @ [CHR 0x0A]"

definition perror :: "os \<Rightarrow> string \<Rightarrow> proc \<Rightarrow> proc" where
  "perror E msg s = s\<lparr>err_stream := err_stream s @ perror_line E msg (errno s)\<rparr>"

subsection \<open>\<^verbatim>\<open>main\<close>\<close>

text \<open>
  The program ends with an exit status (the value \<^verbatim>\<open>main\<close> returns), or it is replaced
  by another image and never returns.
\<close>

datatype outcome = Exit int | Replaced string "string list"

definition main :: "os \<Rightarrow> int \<Rightarrow> addr \<Rightarrow> proc \<Rightarrow> outcome \<times> proc" where
  "main E argc argv s0 =
    (let user = ''nobody'';
         group = ''nogroup''
     in
     case getpwnam E user s0 of
       (None, s1) \<Rightarrow> (Exit 1, perror E ''getpwnam'' s1)
     | (Some pwu, s1) \<Rightarrow>
     (case getgrnam E group s1 of
       (None, s2) \<Rightarrow> (Exit 1, perror E ''getgrnam'' s2)
     | (Some pwg, s2) \<Rightarrow>
     (case initgroups E user (gr_gid pwg) s2 of (r3, s3) \<Rightarrow>
       if r3 \<noteq> 0 then (Exit 1, perror E ''initgroups'' s3) else
     (case chdir E ''/'' s3 of (r4, s4) \<Rightarrow>
       if r4 \<noteq> 0 then (Exit 1, perror E ''chdir'' s4) else
     (case unshare E unshare_flags s4 of (r5, s5) \<Rightarrow>
       if r5 \<noteq> 0 then (Exit 1, perror E ''unshare'' s5) else
     (case setresgid E (gr_gid pwg) (gr_gid pwg) (gr_gid pwg) s5 of (r6, s6) \<Rightarrow>
       if r6 \<noteq> 0 then (Exit 1, perror E ''setresgid'' s6) else
     (case setresuid E (pw_uid pwu) (pw_uid pwu) (pw_uid pwu) s6 of (r7, s7) \<Rightarrow>
       if r7 \<noteq> 0 then (Exit 1, perror E ''setresuid'' s7) else
     (case execv E ''/usr/bin/lynx'' argv s7 of
       (Image p v, s8) \<Rightarrow> (Replaced p v, s8)
     | (Returned r8, s8) \<Rightarrow> (Exit 1, perror E ''execv'' s8)))))))))"

text \<open>
  A run starts \<^verbatim>\<open>main\<close> in a fresh process: nothing called, nothing written, \<^verbatim>\<open>errno\<close>
  zero. Everything else (the identity the launcher starts with, its directory, the
  memory holding the argument vector) is whatever the caller \<open>s\<close> provides.
\<close>

definition startup :: "proc \<Rightarrow> proc" where
  "startup s = s\<lparr>errno := 0, err_stream := [], calls := []\<rparr>"

definition launch :: "os \<Rightarrow> int \<Rightarrow> addr \<Rightarrow> proc \<Rightarrow> outcome \<times> proc" where
  "launch E argc argv s = main E argc argv (startup s)"

definition run_outcome :: "os \<Rightarrow> int \<Rightarrow> addr \<Rightarrow> proc \<Rightarrow> outcome" where
  "run_outcome E argc argv s = fst (launch E argc argv s)"

definition run_final :: "os \<Rightarrow> int \<Rightarrow> addr \<Rightarrow> proc \<Rightarrow> proc" where
  "run_final E argc argv s = snd (launch E argc argv s)"

definition run_calls :: "os \<Rightarrow> int \<Rightarrow> addr \<Rightarrow> proc \<Rightarrow> event list" where
  "run_calls E argc argv s = calls (run_final E argc argv s)"

subsection \<open>Vocabulary of the properties\<close>

text \<open>The name of the function called, and the position of the call in the program text.\<close>

fun call_name :: "call \<Rightarrow> string" where
  "call_name (Getpwnam _) = ''getpwnam''"
| "call_name (Getgrnam _) = ''getgrnam''"
| "call_name (Initgroups _ _) = ''initgroups''"
| "call_name (Chdir _) = ''chdir''"
| "call_name (Unshare _) = ''unshare''"
| "call_name (Setresgid _ _ _) = ''setresgid''"
| "call_name (Setresuid _ _ _) = ''setresuid''"
| "call_name (Execv _ _ _) = ''execv''"

fun position :: "call \<Rightarrow> nat" where
  "position (Getpwnam _) = 0"
| "position (Getgrnam _) = 1"
| "position (Initgroups _ _) = 2"
| "position (Chdir _) = 3"
| "position (Unshare _) = 4"
| "position (Setresgid _ _ _) = 5"
| "position (Setresuid _ _ _) = 6"
| "position (Execv _ _ _) = 7"

text \<open>
  The flags the isolation step is said to request: file-system attributes, the
  file-descriptor table, and the mount, System V semaphore, UTS, IPC, PID and network
  domains (in the order of \<open>all_unshare_flags\<close>).
\<close>

definition requested_flags :: "32 word list" where
  "requested_flags =
     [CLONE_FS, CLONE_FILES, CLONE_NEWNS, CLONE_SYSVSEM,
      CLONE_NEWUTS, CLONE_NEWIPC, CLONE_NEWPID, CLONE_NEWNET]"

text \<open>
  What remains of a run when the argument vector handed to \<^verbatim>\<open>execv\<close> is looked away
  from: the outcome without the vector, and the final process with the vector erased
  from the recorded \<open>Execv\<close> call and from memory.
\<close>

fun forget_argv :: "call \<Rightarrow> call" where
  "forget_argv (Execv p a v) = Execv p 0 []"
| "forget_argv c = c"

fun forget_vector :: "outcome \<Rightarrow> outcome" where
  "forget_vector (Replaced p v) = Replaced p []"
| "forget_vector (Exit n) = Exit n"

definition observable :: "outcome \<times> proc \<Rightarrow> outcome \<times> proc" where
  "observable r =
     (forget_vector (fst r),
      (snd r)\<lparr>calls := map (\<lambda>ev. (forget_argv (fst ev), snd ev)) (calls (snd r)),
              mem := (\<lambda>a. [])\<rparr>)"

text \<open>
  Two checks on a list of events, used to read orderings off a trace:
  \<open>preceded G T\<close> holds when every \<open>T\<close> event has a \<open>G\<close> event before it, and
  \<open>none_before B A\<close> when no \<open>B\<close> event stands before an \<open>A\<close> event.
\<close>

fun preceded :: "('a \<Rightarrow> bool) \<Rightarrow> ('a \<Rightarrow> bool) \<Rightarrow> 'a list \<Rightarrow> bool" where
  "preceded G T [] = True"
| "preceded G T (e # es) = (\<not> T e \<and> (G e \<or> preceded G T es))"

fun none_before :: "('a \<Rightarrow> bool) \<Rightarrow> ('a \<Rightarrow> bool) \<Rightarrow> 'a list \<Rightarrow> bool" where
  "none_before B A [] = True"
| "none_before B A (e # es) = ((B e \<longrightarrow> (\<forall>x\<in>set es. \<not> A x)) \<and> none_before B A es)"

subsection \<open>Four hosts\<close>

text \<open>
  Concrete operating systems on which the launcher can be run: one where every step
  succeeds, one whose identity database has no user \<^verbatim>\<open>nobody\<close>, one whose kernel
  rejects the \<^verbatim>\<open>unshare\<close> flags, and one without the target executable.
\<close>

definition strerror_linux :: "errno_t \<Rightarrow> string" where
  "strerror_linux e =
     (if e = 0 then ''Success''
      else if e = 1 then ''Operation not permitted''
      else if e = 2 then ''No such file or directory''
      else if e = 22 then ''Invalid argument''
      else ''Unknown error'')"

definition nobody :: passwd where
  "nobody = \<lparr>pw_name = ''nobody'', pw_uid = 99, pw_gid = 99\<rparr>"

definition nogroup :: group where
  "nogroup = \<lparr>gr_name = ''nogroup'', gr_gid = 65534\<rparr>"

definition host_ok :: os where
  "host_ok =
     \<lparr>os_getpwnam = (\<lambda>n. if n = ''nobody'' then Inr nobody else Inl 0),
      os_getgrnam = (\<lambda>n. if n = ''nogroup'' then Inr nogroup else Inl 0),
      os_initgroups = (\<lambda>n g. Succeeded),
      os_chdir = (\<lambda>d. if d = ''/'' then Succeeded else Failed 2),
      os_unshare = (\<lambda>f. Succeeded),
      os_setresgid = (\<lambda>r e sv. Succeeded),
      os_setresuid = (\<lambda>r e sv. Succeeded),
      os_execv = (\<lambda>p v. if p = ''/usr/bin/lynx'' then Succeeded else Failed 2),
      os_strerror = strerror_linux\<rparr>"

definition host_no_user :: os where
  "host_no_user = host_ok\<lparr>os_getpwnam := (\<lambda>n. Inl 0)\<rparr>"

definition host_no_unshare :: os where
  "host_no_unshare = host_ok\<lparr>os_unshare := (\<lambda>f. Failed 22)\<rparr>"

definition host_no_lynx :: os where
  "host_no_lynx = host_ok\<lparr>os_execv := (\<lambda>p v. Failed 2)\<rparr>"

text \<open>
  A caller: a root process in some home directory, with the vector
  \<^verbatim>\<open>render mail.html\<close> at address 4096. \<open>other_mem\<close> holds another vector elsewhere.
\<close>

definition root_proc :: proc where
  "root_proc =
     \<lparr>ruid = 0, euid = 0, suid = 0, rgid = 0, egid = 0, sgid = 0,
      supplementary = None, cwd = ''/home/alice'', unshared = 0, errno = 0,
      err_stream = [], calls = [],
      mem = (\<lambda>a. if a = 4096 then [''render'', ''mail.html''] else [])\<rparr>"

definition other_mem :: "addr \<Rightarrow> string list" where
  "other_mem = (\<lambda>a. if a = 8192 then [''lynx'', ''-dump'', ''news.html''] else [])"

text \<open>The calls of a run on \<open>host_ok\<close> from \<open>root_proc\<close>, as the program text orders them.\<close>

definition trace_ok :: "event list" where
  "trace_ok =
     [(Getpwnam ''nobody'', Succeeded),
      (Getgrnam ''nogroup'', Succeeded),
      (Initgroups ''nobody'' 65534, Succeeded),
      (Chdir ''/'', Succeeded),
      (Unshare unshare_flags, Succeeded),
      (Setresgid 65534 65534 65534, Succeeded),
      (Setresuid 99 99 99, Succeeded),
      (Execv ''/usr/bin/lynx'' 4096 [''render'', ''mail.html''], Succeeded)]"

section \<open>Properties of the launcher\<close>

subsection \<open>Reading a trace\<close>

lemma precededD:
  "preceded G T tr \<Longrightarrow> tr = xs @ e # ys \<Longrightarrow> T e \<Longrightarrow> \<exists>g\<in>set xs. G g"
proof (induction tr arbitrary: xs)
  case Nil
  then show ?case by simp
next
  case (Cons a tr)
  show ?case
  proof (cases xs)
    case Nil
    with Cons.prems show ?thesis by auto
  next
    case (Cons b xs')
    with Cons.prems Cons.IH [of xs'] show ?thesis by auto
  qed
qed

lemma none_beforeD:
  "none_before B A tr \<Longrightarrow> tr = xs @ e # ys \<Longrightarrow> A e \<Longrightarrow> \<forall>x\<in>set xs. \<not> B x"
proof (induction tr arbitrary: xs)
  case Nil
  then show ?case by simp
next
  case (Cons a tr)
  show ?case
  proof (cases xs)
    case Nil
    then show ?thesis by simp
  next
    case (Cons b xs')
    with Cons.prems Cons.IH [of xs'] show ?thesis by auto
  qed
qed

lemmas lib_defs = getpwnam_def getgrnam_def initgroups_def chdir_def unshare_def
  setresgid_def setresuid_def execv_def perror_def perror_line_def record_call_def startup_def

lemmas run_defs = run_outcome_def run_final_def run_calls_def launch_def main_def Let_def

lemmas flag_defs = CLONE_NEWTIME_def CLONE_FS_def CLONE_FILES_def CLONE_NEWNS_def
  CLONE_SYSVSEM_def CLONE_NEWCGROUP_def CLONE_NEWUTS_def CLONE_NEWIPC_def CLONE_NEWUSER_def
  CLONE_NEWPID_def CLONE_NEWNET_def

lemmas host_defs = host_ok_def host_no_user_def host_no_unshare_def host_no_lynx_def
  nobody_def nogroup_def root_proc_def other_mem_def strerror_linux_def

subsection \<open>The four hosts, run\<close>

lemma run_ok_calls: "run_calls host_ok 2 4096 root_proc = trace_ok"
  by (simp add: run_defs lib_defs host_defs trace_ok_def)

lemma run_ok_outcome:
  "run_outcome host_ok 2 4096 root_proc = Replaced ''/usr/bin/lynx'' [''render'', ''mail.html'']"
  by (simp add: run_defs lib_defs host_defs)

lemma run_no_user_calls:
  "run_calls host_no_user 2 4096 root_proc = [(Getpwnam ''nobody'', Failed 0)]"
  by (simp add: run_defs lib_defs host_defs)

lemma run_no_unshare_calls:
  "run_calls host_no_unshare 2 4096 root_proc =
     take 4 trace_ok @ [(Unshare unshare_flags, Failed 22)]"
  by (simp add: run_defs lib_defs host_defs trace_ok_def)

lemma run_no_lynx_calls:
  "run_calls host_no_lynx 2 4096 root_proc =
     take 7 trace_ok @ [(Execv ''/usr/bin/lynx'' 4096 [''render'', ''mail.html''], Failed 2)]"
  by (simp add: run_defs lib_defs host_defs trace_ok_def)

subsection \<open>Order of the privilege drops\<close>

lemma gid_before_uid:
  "preceded
     (\<lambda>ev. \<exists>pwg. os_getgrnam E ''nogroup'' = Inr pwg \<and>
        ev = (Setresgid (gr_gid pwg) (gr_gid pwg) (gr_gid pwg), Succeeded))
     (\<lambda>ev. call_name (fst ev) = ''setresuid'')
     (run_calls E argc argv s)"
  unfolding run_defs lib_defs
  by (simp split: sum.split status.split)

lemma no_uid_before_gid:
  "none_before (\<lambda>ev. call_name (fst ev) = ''setresuid'')
     (\<lambda>ev. call_name (fst ev) = ''setresgid'') (run_calls E argc argv s)"
  unfolding run_defs lib_defs
  by (simp split: sum.split status.split)

text \<open>
  C1. Wherever a run calls \<^verbatim>\<open>setresuid\<close>, a \<^verbatim>\<open>setresgid\<close> that set all three group IDs to
  the ID of the group found for \<^verbatim>\<open>nogroup\<close> stands earlier in the trace, and it succeeded;
  and nothing before a \<^verbatim>\<open>setresgid\<close> call is a \<^verbatim>\<open>setresuid\<close> call.
\<close>

theorem group_drop_precedes_user_drop:
  assumes "run_calls E argc argv s = xs @ (c, r) # ys"
  shows "(call_name c = ''setresuid'' \<longrightarrow>
            (\<exists>pwg. os_getgrnam E ''nogroup'' = Inr pwg \<and>
               (Setresgid (gr_gid pwg) (gr_gid pwg) (gr_gid pwg), Succeeded) \<in> set xs)) \<and>
         (call_name c = ''setresgid'' \<longrightarrow>
            (\<forall>ev\<in>set xs. call_name (fst ev) \<noteq> ''setresuid''))"
proof (intro conjI impI)
  assume "call_name c = ''setresuid''"
  with precededD [OF gid_before_uid assms]
  show "\<exists>pwg. os_getgrnam E ''nogroup'' = Inr pwg \<and>
               (Setresgid (gr_gid pwg) (gr_gid pwg) (gr_gid pwg), Succeeded) \<in> set xs"
    by auto
next
  assume "call_name c = ''setresgid''"
  with none_beforeD [OF no_uid_before_gid assms]
  show "\<forall>ev\<in>set xs. call_name (fst ev) \<noteq> ''setresuid''"
    by auto
qed

theorem group_drop_precedes_user_drop_witness:
  "run_calls host_ok 2 4096 root_proc =
     take 6 trace_ok @ (Setresuid 99 99 99, Succeeded) # drop 7 trace_ok \<and>
   call_name (Setresuid 99 99 99) = ''setresuid'' \<and>
   os_getgrnam host_ok ''nogroup'' = Inr nogroup \<and>
   (Setresgid (gr_gid nogroup) (gr_gid nogroup) (gr_gid nogroup), Succeeded)
     \<in> set (take 6 trace_ok)"
proof -
  have split: "run_calls host_ok 2 4096 root_proc =
      take 6 trace_ok @ (Setresuid 99 99 99, Succeeded) # drop 7 trace_ok"
    by (simp add: run_ok_calls trace_ok_def)
  from group_drop_precedes_user_drop [OF split]
  have "\<exists>pwg. os_getgrnam host_ok ''nogroup'' = Inr pwg \<and>
      (Setresgid (gr_gid pwg) (gr_gid pwg) (gr_gid pwg), Succeeded) \<in> set (take 6 trace_ok)"
    by simp
  then have "(Setresgid (gr_gid nogroup) (gr_gid nogroup) (gr_gid nogroup), Succeeded)
      \<in> set (take 6 trace_ok)"
    by (auto simp: host_ok_def)
  with split show ?thesis
    by (simp add: host_ok_def)
qed

subsection \<open>Isolation before the privilege drops\<close>

lemma unshare_first:
  "preceded (\<lambda>ev. ev = (Unshare unshare_flags, Succeeded))
     (\<lambda>ev. call_name (fst ev) = ''setresgid'' \<or> call_name (fst ev) = ''setresuid'')
     (run_calls E argc argv s)"
  unfolding run_defs lib_defs
  by (simp split: sum.split status.split)

text \<open>
  C2. Wherever a run calls \<^verbatim>\<open>setresgid\<close> or \<^verbatim>\<open>setresuid\<close>, the \<^verbatim>\<open>unshare\<close> call stands
  earlier in the trace and it succeeded: no privilege drop is issued before the
  namespace isolation has completed.
\<close>

theorem isolation_precedes_privilege_drop:
  assumes "run_calls E argc argv s = xs @ (c, r) # ys"
    and "call_name c = ''setresgid'' \<or> call_name c = ''setresuid''"
  shows "(Unshare unshare_flags, Succeeded) \<in> set xs"
  using precededD [OF unshare_first assms(1)] assms(2) by auto

theorem isolation_precedes_privilege_drop_witness:
  "run_calls host_ok 2 4096 root_proc =
     take 5 trace_ok @ (Setresgid 65534 65534 65534, Succeeded) # drop 6 trace_ok \<and>
   call_name (Setresgid 65534 65534 65534) = ''setresgid'' \<and>
   (Unshare unshare_flags, Succeeded) \<in> set (take 5 trace_ok)"
proof -
  have split: "run_calls host_ok 2 4096 root_proc =
      take 5 trace_ok @ (Setresgid 65534 65534 65534, Succeeded) # drop 6 trace_ok"
    by (simp add: run_ok_calls trace_ok_def)
  have name: "call_name (Setresgid 65534 65534 65534) = ''setresgid''
      \<or> call_name (Setresgid 65534 65534 65534) = ''setresuid''"
    by simp
  from isolation_precedes_privilege_drop [OF split name] split show ?thesis
    by simp
qed

subsection \<open>A failed step ends the run\<close>

text \<open>
  C3. When a call other than \<^verbatim>\<open>execv\<close> fails, the run ends with a nonzero exit status,
  \<^verbatim>\<open>execv\<close> is never called, the failed call is the last call of the run, and no call
  that stands later in the program text is made.
\<close>

theorem failure_stops_pipeline:
  assumes "(c, Failed e) \<in> set (run_calls E argc argv s)"
    and "call_name c \<noteq> ''execv''"
  shows "(\<exists>n. run_outcome E argc argv s = Exit n \<and> n \<noteq> 0) \<and>
         (\<forall>ev\<in>set (run_calls E argc argv s). call_name (fst ev) \<noteq> ''execv'') \<and>
         last (run_calls E argc argv s) = (c, Failed e) \<and>
         (\<forall>ev\<in>set (run_calls E argc argv s). position (fst ev) \<le> position c)"
  using assms unfolding run_defs lib_defs
  by (auto split: sum.splits status.splits)

theorem failure_stops_pipeline_witness:
  "(Unshare unshare_flags, Failed 22) \<in> set (run_calls host_no_unshare 2 4096 root_proc) \<and>
   call_name (Unshare unshare_flags) \<noteq> ''execv'' \<and>
   (\<exists>n. run_outcome host_no_unshare 2 4096 root_proc = Exit n \<and> n \<noteq> 0) \<and>
   last (run_calls host_no_unshare 2 4096 root_proc) = (Unshare unshare_flags, Failed 22) \<and>
   (Getpwnam ''nobody'', Failed 0) \<in> set (run_calls host_no_user 2 4096 root_proc) \<and>
   (\<exists>n. run_outcome host_no_user 2 4096 root_proc = Exit n \<and> n \<noteq> 0) \<and>
   last (run_calls host_no_user 2 4096 root_proc) = (Getpwnam ''nobody'', Failed 0)"
proof -
  have c: "(Unshare unshare_flags, Failed 22) \<in> set (run_calls host_no_unshare 2 4096 root_proc)"
    by (simp add: run_no_unshare_calls)
  have b: "(Getpwnam ''nobody'', Failed 0) \<in> set (run_calls host_no_user 2 4096 root_proc)"
    by (simp add: run_no_user_calls)
  from failure_stops_pipeline [OF c] failure_stops_pipeline [OF b] c b
  show ?thesis by simp
qed

subsection \<open>Credentials at the replacement\<close>



subsection \<open>The flags of the isolation step\<close>

text \<open>
  C5. Every \<^verbatim>\<open>unshare\<close> call of a run carries the flag word of the program text; a run
  makes exactly one such call when it gets past \<^verbatim>\<open>chdir\<close>, and none otherwise. Of all the
  flags \<^verbatim>\<open>unshare\<close> accepts, that word holds exactly the eight requested ones (mount, IPC,
  network, PID, UTS, System V semaphores, file-descriptor table, file-system
  attributes), it holds no other bit, and \<^verbatim>\<open>CLONE_NEWUSER\<close> is not among them.
\<close>

theorem unshare_flag_set:
  "(\<forall>ev\<in>set (run_calls E argc argv s).
       call_name (fst ev) = ''unshare'' \<longrightarrow> fst ev = Unshare unshare_flags) \<and>
   length (filter (\<lambda>ev. call_name (fst ev) = ''unshare'') (run_calls E argc argv s)) =
     (if (Chdir ''/'', Succeeded) \<in> set (run_calls E argc argv s) then 1 else 0) \<and>
   filter (\<lambda>f. unshare_flags AND f \<noteq> 0) all_unshare_flags = requested_flags \<and>
   unshare_flags AND CLONE_NEWUSER = 0 \<and>
   unshare_flags = fold (OR) requested_flags 0"
proof (intro conjI)
  show "\<forall>ev\<in>set (run_calls E argc argv s).
       call_name (fst ev) = ''unshare'' \<longrightarrow> fst ev = Unshare unshare_flags"
    unfolding run_defs lib_defs
    by (simp split: sum.split status.split)
  show "length (filter (\<lambda>ev. call_name (fst ev) = ''unshare'') (run_calls E argc argv s)) =
     (if (Chdir ''/'', Succeeded) \<in> set (run_calls E argc argv s) then 1 else 0)"
    unfolding run_defs lib_defs
    by (simp split: sum.split status.split)
  show "filter (\<lambda>f. unshare_flags AND f \<noteq> 0) all_unshare_flags = requested_flags"
    by (simp add: unshare_flags_def all_unshare_flags_def requested_flags_def flag_defs)
  show "unshare_flags AND CLONE_NEWUSER = 0"
    by (simp add: unshare_flags_def flag_defs)
  show "unshare_flags = fold (OR) requested_flags 0"
    by (simp add: unshare_flags_def requested_flags_def flag_defs)
qed

theorem unshare_flag_set_witness:
  "(Chdir ''/'', Succeeded) \<in> set (run_calls host_ok 2 4096 root_proc) \<and>
   length (filter (\<lambda>ev. call_name (fst ev) = ''unshare'') (run_calls host_ok 2 4096 root_proc)) = 1 \<and>
   (Unshare unshare_flags, Succeeded) \<in> set (run_calls host_ok 2 4096 root_proc) \<and>
   call_name (fst (Unshare unshare_flags, Succeeded)) = ''unshare'' \<and>
   unshare_flags = 0x6C060600"
proof -
  have chdir_ok: "(Chdir ''/'', Succeeded) \<in> set (run_calls host_ok 2 4096 root_proc)"
    by (simp add: run_ok_calls trace_ok_def)
  have unshare_ok: "(Unshare unshare_flags, Succeeded) \<in> set (run_calls host_ok 2 4096 root_proc)"
    by (simp add: run_ok_calls trace_ok_def)
  have "unshare_flags = fold (OR) requested_flags 0"
    using unshare_flag_set [of host_ok 2 4096 root_proc] by blast
  then have word: "unshare_flags = 0x6C060600"
    by (simp add: requested_flags_def flag_defs)
  have "length (filter (\<lambda>ev. call_name (fst ev) = ''unshare'') (run_calls host_ok 2 4096 root_proc)) = 1"
    using unshare_flag_set [of host_ok 2 4096 root_proc] chdir_ok by simp
  with chdir_ok unshare_ok word show ?thesis by simp
qed

subsection \<open>The diagnostic of a failed run\<close>

text \<open>
  A run has two ways to end: replaced, with no failed call, or with exit status 1 after
  a failed call. So the runs in which a call fails are the runs that return from \<^verbatim>\<open>main\<close>.
\<close>

lemma exit_iff_some_call_failed:
  "(\<exists>c e. (c, Failed e) \<in> set (run_calls E argc argv s)) \<longleftrightarrow>
     run_outcome E argc argv s = Exit 1"
  unfolding run_defs lib_defs
  by (simp split: sum.split status.split)

lemma replaced_or_exit_1:
  "(\<exists>p v. run_outcome E argc argv s = Replaced p v) \<or> run_outcome E argc argv s = Exit 1"
  unfolding run_defs lib_defs
  by (simp split: sum.split status.split)



subsection \<open>No call is repeated\<close>

text \<open>
  C7. In every run the names of the calls made are pairwise different: each of the
  eight calls is made at most once. A run that ends in the replacement of the image made
  exactly the eight calls, once each, in the order of the program text.
\<close>

theorem each_call_at_most_once:
  "distinct (map (\<lambda>ev. call_name (fst ev)) (run_calls E argc argv s)) \<and>
   ((\<exists>p v. run_outcome E argc argv s = Replaced p v) \<longrightarrow>
      map (\<lambda>ev. call_name (fst ev)) (run_calls E argc argv s) =
        [''getpwnam'', ''getgrnam'', ''initgroups'', ''chdir'', ''unshare'',
         ''setresgid'', ''setresuid'', ''execv''])"
  unfolding run_defs lib_defs
  by (simp split: sum.split status.split)

theorem each_call_at_most_once_witness:
  "run_outcome host_ok 2 4096 root_proc = Replaced ''/usr/bin/lynx'' [''render'', ''mail.html''] \<and>
   distinct (map (\<lambda>ev. call_name (fst ev)) (run_calls host_ok 2 4096 root_proc)) \<and>
   map (\<lambda>ev. call_name (fst ev)) (run_calls host_ok 2 4096 root_proc) =
     [''getpwnam'', ''getgrnam'', ''initgroups'', ''chdir'', ''unshare'',
      ''setresgid'', ''setresuid'', ''execv'']"
  using each_call_at_most_once [of host_ok 2 4096 root_proc] run_ok_outcome
  by simp

subsection \<open>The argument vector\<close>

text \<open>
  C8. Every \<^verbatim>\<open>execv\<close> call of a run is given the very pointer \<^verbatim>\<open>argv\<close> that \<^verbatim>\<open>main\<close>
  received, and the vector behind it is the one that was there when \<^verbatim>\<open>main\<close> started; the
  replacement image is started on exactly that vector, and the run leaves the memory
  of the argument vectors as it found it.
\<close>

theorem argv_forwarded:
  "(\<forall>ev\<in>set (run_calls E argc argv s).
       call_name (fst ev) = ''execv'' \<longrightarrow>
         fst ev = Execv ''/usr/bin/lynx'' argv (mem s argv)) \<and>
   (\<forall>p v. run_outcome E argc argv s = Replaced p v \<longrightarrow> v = mem s argv) \<and>
   mem (run_final E argc argv s) = mem s"
  unfolding run_defs lib_defs
  by (simp split: sum.split status.split)

theorem argv_forwarded_witness:
  "run_outcome host_ok 2 4096 root_proc = Replaced ''/usr/bin/lynx'' [''render'', ''mail.html''] \<and>
   mem root_proc 4096 = [''render'', ''mail.html''] \<and>
   mem (run_final host_ok 2 4096 root_proc) = mem root_proc \<and>
   (Execv ''/usr/bin/lynx'' 4096 (mem root_proc 4096), Succeeded)
     \<in> set (run_calls host_ok 2 4096 root_proc)"
proof -
  have vec: "mem root_proc 4096 = [''render'', ''mail.html'']"
    by (simp add: root_proc_def)
  have called: "(Execv ''/usr/bin/lynx'' 4096 (mem root_proc 4096), Succeeded)
      \<in> set (run_calls host_ok 2 4096 root_proc)"
    by (simp add: vec run_ok_calls trace_ok_def)
  from argv_forwarded [of host_ok 2 4096 root_proc]
  have "mem (run_final host_ok 2 4096 root_proc) = mem root_proc"
    by blast
  with vec called run_ok_outcome show ?thesis
    by simp
qed

subsection \<open>The fixed configuration\<close>

text \<open>
  C9. In every run, the only name ever looked up as a user (and passed to
  \<^verbatim>\<open>initgroups\<close>) is \<^verbatim>\<open>nobody\<close>, the only name looked up as a group is \<^verbatim>\<open>nogroup\<close>, the only
  directory changed to is \<^verbatim>\<open>/\<close>, and the only path executed is \<^verbatim>\<open>/usr/bin/lynx\<close>.
\<close>

theorem fixed_configuration:
  "(\<forall>ev\<in>set (run_calls E argc argv s).
      case fst ev of
        Getpwnam n \<Rightarrow> n = ''nobody''
      | Getgrnam n \<Rightarrow> n = ''nogroup''
      | Initgroups n g \<Rightarrow> n = ''nobody''
      | Chdir d \<Rightarrow> d = ''/''
      | Execv p a v \<Rightarrow> p = ''/usr/bin/lynx''
      | _ \<Rightarrow> True) \<and>
   (\<forall>p v. run_outcome E argc argv s = Replaced p v \<longrightarrow> p = ''/usr/bin/lynx'')"
  unfolding run_defs lib_defs
  by (simp split: sum.split status.split)

theorem fixed_configuration_witness:
  "run_calls host_no_lynx 2 4096 root_proc =
     [(Getpwnam ''nobody'', Succeeded),
      (Getgrnam ''nogroup'', Succeeded),
      (Initgroups ''nobody'' 65534, Succeeded),
      (Chdir ''/'', Succeeded),
      (Unshare unshare_flags, Succeeded),
      (Setresgid 65534 65534 65534, Succeeded),
      (Setresuid 99 99 99, Succeeded),
      (Execv ''/usr/bin/lynx'' 4096 [''render'', ''mail.html''], Failed 2)] \<and>
   (case fst (last (run_calls host_no_lynx 2 4096 root_proc)) of
      Execv p a v \<Rightarrow> p = ''/usr/bin/lynx'' | _ \<Rightarrow> False)"
  using fixed_configuration [of host_no_lynx 2 4096 root_proc]
  by (simp add: run_no_lynx_calls trace_ok_def)

subsection \<open>The argument vector decides nothing else\<close>

text \<open>
  C10. Take two runs on the same operating system from the same process, with any two
  argument counts, pointers and vectors, such that \<^verbatim>\<open>execv\<close> answers alike for the two
  vectors. Then, the vector handed to \<^verbatim>\<open>execv\<close> apart, the two runs are the same: the same
  calls with the same arguments and results in the same order, the same exit status or
  replacement, the same bytes on the standard error stream and the same final process.
\<close>

theorem argv_noninterference:
  assumes "os_execv E ''/usr/bin/lynx'' (m a) = os_execv E ''/usr/bin/lynx'' (m' a')"
  shows "observable (launch E c a (s\<lparr>mem := m\<rparr>)) = observable (launch E c' a' (s\<lparr>mem := m'\<rparr>))"
  using assms unfolding run_defs lib_defs observable_def
  by (simp split: sum.split status.split)

theorem argv_noninterference_witness:
  "os_execv host_ok ''/usr/bin/lynx'' (mem root_proc 4096) =
     os_execv host_ok ''/usr/bin/lynx'' (other_mem 8192) \<and>
   mem root_proc 4096 \<noteq> other_mem 8192 \<and>
   observable (launch host_ok 2 4096 root_proc) =
     observable (launch host_ok 3 8192 (root_proc\<lparr>mem := other_mem\<rparr>))"
proof -
  have same: "os_execv host_ok ''/usr/bin/lynx'' (mem root_proc 4096) =
      os_execv host_ok ''/usr/bin/lynx'' (other_mem 8192)"
    by (simp add: host_ok_def)
  have differ: "mem root_proc 4096 \<noteq> other_mem 8192"
    by (simp add: root_proc_def other_mem_def)
  from argv_noninterference [where E = host_ok and m = "mem root_proc" and a = 4096
      and m' = other_mem and a' = 8192 and s = root_proc and c = 2 and c' = 3, OF same]
  have "observable (launch host_ok 2 4096 root_proc) =
      observable (launch host_ok 3 8192 (root_proc\<lparr>mem := other_mem\<rparr>))"
    by simp
  with same differ show ?thesis by simp
qed


end
